theory Spec2Isabelle
  imports Main "HOL-Library.Word"
begin

section \<open>Errors, the underlying sink, construction parameters\<close>

text \<open>
  Package \<open>batchio\<close> (file \<open>batchio/writer.go\<close>) holds two write coalescers in front of
  an \<open>io.Writer\<close>: the blocking \<open>Writer\<close> and the non-blocking \<open>DeadlineBufWriter\<close>.

  A Go \<open>error\<close> value is either the package variable \<open>ErrShortWrite\<close> or any other
  error, identified here by its message; \<open>nil\<close> is \<open>None\<close>.  The sink is free to
  return \<open>ErrShortWrite\<close> itself.
\<close>

datatype error = ErrShortWrite | SinkError string

text \<open>A call either returns or panics (send on, or close of, a closed channel).\<close>

datatype 'a outcome = Returns 'a | Panics

text \<open>
  The arguments of \<open>NewWriter\<close> and \<open>NewDeadlineBufWriter\<close>.  The sink is any
  \<open>io.Writer\<close>: its \<open>Write\<close> method maps the sink's state and a byte slice to
  \<open>(n, err)\<close> and a new sink state.  \<open>writer_Close\<close> is \<open>Some\<close> exactly when the type
  assertion \<open>w.writer.(io.Closer)\<close> succeeds.  Bytes are the type parameter \<open>'b\<close>
  (\<open>8 word\<close> in the examples), so every statement also holds for tagged bytes.
\<close>

record ('b, 's) params =
  writer_Write :: "'s \<Rightarrow> 'b list \<Rightarrow> (int \<times> error option) \<times> 's"
  writer_Close :: "('s \<Rightarrow> error option \<times> 's) option"
  timeout :: int
  maxSize :: int

section \<open>The non-blocking coalescer: DeadlineBufWriter\<close>

text \<open>
  Control point of the worker goroutine \<open>DeadlineBufWriter.flusher\<close>:
  waiting in \<open>range w.notify\<close>; between the receive and \<open>flushLocked\<close> (the sleep);
  at the send \<open>w.errors <- err\<close> with the error in hand; after the loop.
\<close>

datatype dpc = DWaiting | DSleeping | DSending error | DExited

datatype ret = WriteRet "(int \<times> error option) outcome" | CloseRet "error option outcome"

text \<open>
  Control point of the caller of \<open>DeadlineBufWriter.Close\<close>, which takes no lock: no
  call in progress; past the \<open>select\<close> on \<open>errors\<close>, at the length test of
  \<open>flushLocked\<close>; at the sink's \<open>Write\<close>; at the comparison, holding \<open>n\<close> and \<open>err\<close>;
  at the truncation, holding \<open>err\<close>; at \<open>close(w.notify)\<close>; at the sink's \<open>Close\<close>.
\<close>

datatype cpc =
  CIdle | CAtLen | CAtWrite | CAtCompare int "error option" | CAtTruncate "error option"
  | CAtNotify | CAtSink

text \<open>
  The struct \<open>DeadlineBufWriter\<close>.  \<open>d_notify\<close> says whether the one-slot channel
  \<open>notify\<close> holds a signal, \<open>d_notify_closed\<close> whether it has been closed, \<open>d_errors\<close>
  is the content of the one-slot channel \<open>errors\<close>, \<open>d_sink\<close> the state of the field
  \<open>writer\<close>.  The remaining fields are not in the struct: \<open>d_worker\<close> is the control
  point of the worker, \<open>d_closer\<close> that of the caller of \<open>Close\<close>, \<open>d_panicked\<close> says that a goroutine has panicked (the process is
  gone), and \<open>d_calls\<close>, \<open>d_appended\<close>, \<open>d_closes\<close>, \<open>d_returns\<close> are history: the
  payload of every sink \<open>Write\<close> call in order, every byte appended to the buffer in
  order, the number of sink \<open>Close\<close> calls, and what the calls to \<open>Write\<close> and \<open>Close\<close>
  returned, in order.
\<close>

record ('b, 's) dbw =
  d_buffer :: "'b list"
  d_notify :: bool
  d_notify_closed :: bool
  d_errors :: "error option"
  d_sink :: 's
  d_worker :: dpc
  d_closer :: cpc
  d_panicked :: bool
  d_calls :: "'b list list"
  d_appended :: "'b list"
  d_closes :: nat
  d_returns :: "ret list"

definition NewDeadlineBufWriter :: "'s \<Rightarrow> ('b, 's) dbw" where
  "NewDeadlineBufWriter s =
     \<lparr>d_buffer = [], d_notify = False, d_notify_closed = False, d_errors = None,
      d_sink = s, d_worker = DWaiting, d_closer = CIdle, d_panicked = False, d_calls = [],
      d_appended = [], d_closes = 0, d_returns = []\<rparr>"

text \<open>
  \<open>flushLocked\<close>, run as a whole: returns the error and the updated writer.  This is
  what a caller holding \<open>w.mutex\<close> does (\<open>Write\<close>, the worker), and what any caller
  does when no other goroutine touches the buffer meanwhile.
\<close>

definition flushLocked :: "('b, 's) params \<Rightarrow> ('b, 's) dbw \<Rightarrow> error option \<times> ('b, 's) dbw" where
  "flushLocked cfg w =
     (if length (d_buffer w) = 0 then (None, w)
      else
        (case writer_Write cfg (d_sink w) (d_buffer w) of
           ((n, err), s') \<Rightarrow>
             ((if n \<noteq> int (length (d_buffer w)) then Some ErrShortWrite else err),
              w\<lparr>d_buffer := [], d_sink := s', d_calls := d_calls w @ [d_buffer w]\<rparr>)))"

text \<open>
  \<open>DeadlineBufWriter.Write\<close>.  The non-blocking send on \<open>notify\<close> panics when the
  channel is closed (a \<open>select\<close> takes a send on a closed channel as ready).
\<close>

definition DeadlineBufWriter_Write ::
  "('b, 's) params \<Rightarrow> 'b list \<Rightarrow> ('b, 's) dbw \<Rightarrow> (int \<times> error option) outcome \<times> ('b, 's) dbw" where
  "DeadlineBufWriter_Write cfg p w =
     (case d_errors w of
        Some e \<Rightarrow> (Returns (0, Some e), w\<lparr>d_errors := None\<rparr>)
      | None \<Rightarrow>
          (let w1 = w\<lparr>d_buffer := d_buffer w @ p, d_appended := d_appended w @ p\<rparr> in
           if int (length (d_buffer w1)) > maxSize cfg then
             (case flushLocked cfg w1 of
                (Some e, w2) \<Rightarrow> (Returns (0, Some e), w2)
              | (None, w2) \<Rightarrow> (Returns (int (length p), None), w2))
           else if d_notify_closed w1 then (Panics, w1\<lparr>d_panicked := True\<rparr>)
           else (Returns (int (length p), None), w1\<lparr>d_notify := True\<rparr>)))"

text \<open>
  \<open>DeadlineBufWriter.Close\<close>, run as a whole: the result and the state when no other
  goroutine acts between its statements.  Closing a closed channel panics.  \<open>Close\<close>
  calls \<open>flushLocked\<close> without taking \<open>w.mutex\<close>, so in a concurrent execution its
  statements are separate actions (\<open>Close_step\<close> below); lemma \<open>Close_call_whole\<close>
  relates the two.
\<close>

definition DeadlineBufWriter_Close ::
  "('b, 's) params \<Rightarrow> ('b, 's) dbw \<Rightarrow> error option outcome \<times> ('b, 's) dbw" where
  "DeadlineBufWriter_Close cfg w =
     (case d_errors w of
        Some e \<Rightarrow> (Returns (Some e), w\<lparr>d_errors := None\<rparr>)
      | None \<Rightarrow>
          (case flushLocked cfg w of
             (Some e, w1) \<Rightarrow> (Returns (Some e), w1)
           | (None, w1) \<Rightarrow>
               if d_notify_closed w1 then (Panics, w1\<lparr>d_panicked := True\<rparr>)
               else
                 (let w2 = w1\<lparr>d_notify_closed := True\<rparr> in
                  case writer_Close cfg of
                    None \<Rightarrow> (Returns None, w2)
                  | Some cl \<Rightarrow>
                      (case cl (d_sink w2) of
                         (e, s') \<Rightarrow> (Returns e, w2\<lparr>d_sink := s', d_closes := d_closes w2 + 1\<rparr>)))))"

text \<open>
  The atomic actions of one instance.  \<open>Write\<close> and the worker touch the buffer and
  the sink only between \<open>w.mutex.Lock()\<close> and \<open>w.mutex.Unlock()\<close>, so their critical
  sections exclude one another: \<open>DWrite p\<close> is a whole call of \<open>Write(p)\<close> by some
  caller and \<open>DFlush\<close> is the worker's \<open>flushLocked\<close> under the mutex after the
  sleep.  The other actions of the worker: \<open>DTake\<close> receives from \<open>notify\<close>;
  \<open>DSend\<close> is the send \<open>w.errors <- err\<close>, a plain (blocking) send on a channel of
  capacity one; \<open>DExit\<close> leaves the \<open>range\<close> loop once \<open>notify\<close> is closed and drained.

  \<open>Close\<close> takes no lock.  Each of its statements is an action of its own, which can
  fall before or after any action of the others: \<open>DCloseErrors\<close> is the \<open>select\<close> on
  \<open>errors\<close>; \<open>DCloseLen\<close>, \<open>DCloseWrite\<close>, \<open>DCloseCompare\<close> and \<open>DCloseTruncate\<close> are
  the four statements of \<open>flushLocked\<close>; \<open>DCloseNotify\<close> is \<open>close(w.notify)\<close>;
  \<open>DCloseSink\<close> is the call of the sink's \<open>Close\<close> and the return.  One call of
  \<open>Close\<close> is in progress at a time.  A schedule places the statements of \<open>Close\<close>
  between the critical sections of the others, not inside one.  The theorems that
  range over all schedules do not depend on this: the one on buffer integrity takes
  schedules in which a call of \<open>Close\<close> overlaps no other action, and the one on
  coalescing lets \<open>Close\<close> act only once the buffer is empty for good, where every
  \<open>flushLocked\<close> is its length test alone.
\<close>

datatype 'b devent =
  DWrite "'b list" | DTake | DFlush | DSend | DExit
  | DCloseErrors | DCloseLen | DCloseWrite | DCloseCompare | DCloseTruncate
  | DCloseNotify | DCloseSink

fun Close_action :: "'b devent \<Rightarrow> bool" where
  "Close_action DCloseErrors = True"
| "Close_action DCloseLen = True"
| "Close_action DCloseWrite = True"
| "Close_action DCloseCompare = True"
| "Close_action DCloseTruncate = True"
| "Close_action DCloseNotify = True"
| "Close_action DCloseSink = True"
| "Close_action _ = False"

fun is_write :: "'b devent \<Rightarrow> bool" where
  "is_write (DWrite p) = True"
| "is_write _ = False"

text \<open>
  One action; \<open>None\<close> when the action cannot happen in this state (the goroutine is
  blocked or is not at that control point, or the process has panicked).
\<close>

fun flusher_step :: "('b, 's) params \<Rightarrow> 'b devent \<Rightarrow> ('b, 's) dbw \<Rightarrow> ('b, 's) dbw option" where
  "flusher_step cfg DTake w =
     (if d_worker w = DWaiting \<and> d_notify w
      then Some (w\<lparr>d_notify := False, d_worker := DSleeping\<rparr>) else None)"
| "flusher_step cfg DExit w =
     (if d_worker w = DWaiting \<and> \<not> d_notify w \<and> d_notify_closed w
      then Some (w\<lparr>d_worker := DExited\<rparr>) else None)"
| "flusher_step cfg DFlush w =
     (if d_worker w = DSleeping
      then (case flushLocked cfg w of
              (None, w') \<Rightarrow> Some (w'\<lparr>d_worker := DWaiting\<rparr>)
            | (Some e, w') \<Rightarrow> Some (w'\<lparr>d_worker := DSending e\<rparr>))
      else None)"
| "flusher_step cfg DSend w =
     (case d_worker w of
        DSending e \<Rightarrow>
          (if d_errors w = None then Some (w\<lparr>d_errors := Some e, d_worker := DWaiting\<rparr>)
           else None)
      | _ \<Rightarrow> None)"
| "flusher_step cfg _ w = None"

text \<open>The statements of \<open>Close\<close>, and of the \<open>flushLocked\<close> it calls, one by one.\<close>

fun Close_step :: "('b, 's) params \<Rightarrow> 'b devent \<Rightarrow> ('b, 's) dbw \<Rightarrow> ('b, 's) dbw option" where
  "Close_step cfg DCloseErrors w =
     (if d_closer w = CIdle
      then (case d_errors w of
              Some e \<Rightarrow>
                Some (w\<lparr>d_errors := None,
                        d_returns := d_returns w @ [CloseRet (Returns (Some e))]\<rparr>)
            | None \<Rightarrow> Some (w\<lparr>d_closer := CAtLen\<rparr>))
      else None)"
| "Close_step cfg DCloseLen w =
     (if d_closer w = CAtLen
      then Some (w\<lparr>d_closer := (if length (d_buffer w) = 0 then CAtNotify else CAtWrite)\<rparr>)
      else None)"
| "Close_step cfg DCloseWrite w =
     (if d_closer w = CAtWrite
      then (case writer_Write cfg (d_sink w) (d_buffer w) of
              ((n, err), s') \<Rightarrow>
                Some (w\<lparr>d_sink := s', d_calls := d_calls w @ [d_buffer w],
                        d_closer := CAtCompare n err\<rparr>))
      else None)"
| "Close_step cfg DCloseCompare w =
     (case d_closer w of
        CAtCompare n err \<Rightarrow>
          Some (w\<lparr>d_closer :=
                    CAtTruncate (if n \<noteq> int (length (d_buffer w)) then Some ErrShortWrite
                                 else err)\<rparr>)
      | _ \<Rightarrow> None)"
| "Close_step cfg DCloseTruncate w =
     (case d_closer w of
        CAtTruncate err \<Rightarrow>
          (case err of
             Some e \<Rightarrow>
               Some (w\<lparr>d_buffer := [], d_closer := CIdle,
                       d_returns := d_returns w @ [CloseRet (Returns (Some e))]\<rparr>)
           | None \<Rightarrow> Some (w\<lparr>d_buffer := [], d_closer := CAtNotify\<rparr>))
      | _ \<Rightarrow> None)"
| "Close_step cfg DCloseNotify w =
     (if d_closer w = CAtNotify
      then (if d_notify_closed w
            then Some (w\<lparr>d_panicked := True, d_closer := CIdle,
                         d_returns := d_returns w @ [CloseRet Panics]\<rparr>)
            else Some (w\<lparr>d_notify_closed := True, d_closer := CAtSink\<rparr>))
      else None)"
| "Close_step cfg DCloseSink w =
     (if d_closer w = CAtSink
      then (case writer_Close cfg of
              None \<Rightarrow>
                Some (w\<lparr>d_closer := CIdle,
                        d_returns := d_returns w @ [CloseRet (Returns None)]\<rparr>)
            | Some cl \<Rightarrow>
                (case cl (d_sink w) of
                   (e, s') \<Rightarrow>
                     Some (w\<lparr>d_sink := s', d_closes := d_closes w + 1, d_closer := CIdle,
                             d_returns := d_returns w @ [CloseRet (Returns e)]\<rparr>)))
      else None)"
| "Close_step cfg _ w = None"

definition dstep :: "('b, 's) params \<Rightarrow> 'b devent \<Rightarrow> ('b, 's) dbw \<Rightarrow> ('b, 's) dbw option" where
  "dstep cfg ev w =
     (if d_panicked w then None
      else if Close_action ev then Close_step cfg ev w
      else (case ev of
              DWrite p \<Rightarrow>
                (case DeadlineBufWriter_Write cfg p w of
                   (r, w') \<Rightarrow> Some (w'\<lparr>d_returns := d_returns w' @ [WriteRet r]\<rparr>))
            | _ \<Rightarrow> flusher_step cfg ev w))"

text \<open>A schedule is a list of actions; an action that cannot happen is skipped.\<close>

fun drun :: "('b, 's) params \<Rightarrow> 'b devent list \<Rightarrow> ('b, 's) dbw \<Rightarrow> ('b, 's) dbw" where
  "drun cfg [] w = w"
| "drun cfg (ev # evs) w = drun cfg evs (case dstep cfg ev w of None \<Rightarrow> w | Some w' \<Rightarrow> w')"

text \<open>The statements of one call of \<open>Close\<close> in program order (those not reached are skipped).\<close>

definition Close_call :: "'b devent list" where
  "Close_call =
     [DCloseErrors, DCloseLen, DCloseWrite, DCloseCompare, DCloseTruncate, DCloseNotify,
      DCloseSink]"

text \<open>
  Schedules in which \<open>Close\<close> overlaps no other action: every item is an action of a
  \<open>Write\<close> call or of the worker, or a whole call of \<open>Close\<close>.
\<close>

datatype 'b item = Act "'b devent" | WholeClose

fun actions :: "'b item \<Rightarrow> 'b devent list" where
  "actions (Act ev) = [ev]"
| "actions WholeClose = Close_call"

fun apart :: "'b item \<Rightarrow> bool" where
  "apart (Act ev) = (\<not> Close_action ev)"
| "apart WholeClose = True"


section \<open>The blocking coalescer: Writer\<close>

text \<open>
  Control point of a caller inside \<open>Writer.Write\<close>: not in a call; after the append
  under \<open>mutex\<close> (with \<open>len(p)\<close>); parked in \<open>cond.Wait()\<close>; woken by a broadcast
  and not yet past \<open>err = w.err\<close>; returned with \<open>(n, err)\<close>.
\<close>

datatype wpc = WIdle | WAppended nat | WParked nat | WAwake nat | WDone int "error option"

text \<open>
  Control point of the goroutine \<open>Writer.flusher\<close>: at the \<open>select\<close>; after the
  receive from \<open>notify\<close>; after the \<open>bufferSize\<close> test (and the sleep, if any); after
  the critical section, before the broadcast; returned.
\<close>

datatype fpc = FWaiting | FReceived | FReady | FFlushed | FExited

text \<open>
  The struct \<open>Writer\<close>.  \<open>w_notify\<close>: the one-slot channel \<open>notify\<close> holds a signal;
  \<open>w_quit\<close>: the channel \<open>quit\<close> is closed; \<open>w_err\<close>: the field \<open>err\<close>; \<open>w_sink\<close>:
  the state of the field \<open>writer\<close>.  Not in the struct: the control points
  \<open>w_callers\<close> (by caller number) and \<open>w_flusher\<close>, \<open>w_panicked\<close>, and the history:
  \<open>w_calls\<close> (every sink \<open>Write\<close> call in order: payload, \<open>n\<close>, \<open>err\<close>),
  \<open>w_appended\<close> (every byte appended, in order), \<open>w_slept\<close> (for every cycle of the
  worker, whether it slept for \<open>timeout\<close>), \<open>w_closes\<close> (number of sink \<open>Close\<close>
  calls) and \<open>w_close_returns\<close> (what the calls of \<open>Close\<close> returned).
\<close>

record ('b, 's) writer =
  w_buffer :: "'b list"
  w_notify :: bool
  w_quit :: bool
  w_err :: "error option"
  w_sink :: 's
  w_callers :: "nat \<Rightarrow> wpc"
  w_flusher :: fpc
  w_panicked :: bool
  w_calls :: "('b list \<times> int \<times> error option) list"
  w_appended :: "'b list"
  w_slept :: "bool list"
  w_closes :: nat
  w_close_returns :: "error option outcome list"

definition NewWriter :: "'s \<Rightarrow> ('b, 's) writer" where
  "NewWriter s =
     \<lparr>w_buffer = [], w_notify = False, w_quit = False, w_err = None, w_sink = s,
      w_callers = (\<lambda>c. WIdle), w_flusher = FWaiting, w_panicked = False, w_calls = [],
      w_appended = [], w_slept = [], w_closes = 0, w_close_returns = []\<rparr>"

definition bufferSize :: "('b, 's) writer \<Rightarrow> int" where
  "bufferSize w = int (length (w_buffer w))"

text \<open>The critical section of \<open>Writer.flusher\<close>, from \<open>w.mutex.Lock()\<close> to \<open>w.mutex.Unlock()\<close>.\<close>

definition Writer_flush :: "('b, 's) params \<Rightarrow> ('b, 's) writer \<Rightarrow> ('b, 's) writer" where
  "Writer_flush cfg w =
     (case (if length (w_buffer w) > 0
            then (case writer_Write cfg (w_sink w) (w_buffer w) of
                    ((n, err), s') \<Rightarrow>
                      (n, err, w\<lparr>w_sink := s', w_calls := w_calls w @ [(w_buffer w, n, err)]\<rparr>))
            else (0, None, w)) of
        (n, err, w1) \<Rightarrow>
          (case err of
             Some e \<Rightarrow> w1\<lparr>w_err := Some e\<rparr>
           | None \<Rightarrow>
               if n < int (length (w_buffer w1)) then w1\<lparr>w_err := Some ErrShortWrite\<rparr>
               else w1\<lparr>w_buffer := []\<rparr>))"

text \<open>\<open>w.cond.Broadcast()\<close>: every caller parked in \<open>cond.Wait()\<close> is woken.\<close>

definition Broadcast :: "(nat \<Rightarrow> wpc) \<Rightarrow> nat \<Rightarrow> wpc" where
  "Broadcast cs = (\<lambda>c. case cs c of WParked k \<Rightarrow> WAwake k | x \<Rightarrow> x)"

text \<open>The end of \<open>Writer.Write\<close>, from \<open>err = w.err\<close>, for a payload of length \<open>k\<close>.\<close>

definition Writer_Write_result :: "('b, 's) writer \<Rightarrow> nat \<Rightarrow> wpc" where
  "Writer_Write_result w k =
     (case w_err w of Some e \<Rightarrow> WDone 0 (Some e) | None \<Rightarrow> WDone (int k) None)"

text \<open>\<open>Writer.Close\<close>.\<close>

definition Writer_Close :: "('b, 's) params \<Rightarrow> ('b, 's) writer \<Rightarrow> error option outcome \<times> ('b, 's) writer" where
  "Writer_Close cfg w =
     (if w_quit w then (Panics, w\<lparr>w_panicked := True\<rparr>)
      else
        (let w1 = w\<lparr>w_quit := True\<rparr> in
         case writer_Close cfg of
           None \<Rightarrow> (Returns None, w1)
         | Some cl \<Rightarrow>
             (case cl (w_sink w1) of
                (e, s') \<Rightarrow> (Returns e, w1\<lparr>w_sink := s', w_closes := w_closes w1 + 1\<rparr>))))"

text \<open>
  The atomic actions.  Of caller \<open>c\<close> in \<open>Write(p)\<close>: \<open>WAppend c p\<close> is the append under
  \<open>mutex\<close>; \<open>WPark c\<close> is the non-blocking send on \<open>notify\<close> followed by
  \<open>cond.Wait()\<close>, both under \<open>condM\<close>, which the broadcast needs too; \<open>WReturn c\<close>
  reads \<open>w.err\<close> after the wake-up and returns.  \<open>WClose\<close> is a call of \<open>Close\<close>.
  Of the worker: \<open>FRecv\<close> and \<open>FQuit\<close> are the two cases of the \<open>select\<close>;
  \<open>FCheck\<close> is the test \<open>w.bufferSize() < w.maxSize\<close> that decides the sleep;
  \<open>FFlush\<close> is the critical section; \<open>FBroadcast\<close> is the broadcast.
\<close>

datatype 'b wevent =
  WAppend nat "'b list" | WPark nat | WReturn nat | WClose
  | FRecv | FQuit | FCheck | FFlush | FBroadcast


fun can_call :: "wpc \<Rightarrow> bool" where
  "can_call WIdle = True"
| "can_call (WDone n e) = True"
| "can_call _ = False"

fun Writer_step :: "('b, 's) params \<Rightarrow> 'b wevent \<Rightarrow> ('b, 's) writer \<Rightarrow> ('b, 's) writer option" where
  "Writer_step cfg (WAppend c p) w =
     (if can_call (w_callers w c)
      then Some (w\<lparr>w_buffer := w_buffer w @ p, w_appended := w_appended w @ p,
                   w_callers := (w_callers w)(c := WAppended (length p))\<rparr>)
      else None)"
| "Writer_step cfg (WPark c) w =
     (case w_callers w c of
        WAppended k \<Rightarrow> Some (w\<lparr>w_notify := True, w_callers := (w_callers w)(c := WParked k)\<rparr>)
      | _ \<Rightarrow> None)"
| "Writer_step cfg (WReturn c) w =
     (case w_callers w c of
        WAwake k \<Rightarrow> Some (w\<lparr>w_callers := (w_callers w)(c := Writer_Write_result w k)\<rparr>)
      | _ \<Rightarrow> None)"
| "Writer_step cfg WClose w =
     (case Writer_Close cfg w of
        (r, w') \<Rightarrow> Some (w'\<lparr>w_close_returns := w_close_returns w' @ [r]\<rparr>))"
| "Writer_step cfg FRecv w =
     (if w_flusher w = FWaiting \<and> w_notify w
      then Some (w\<lparr>w_notify := False, w_flusher := FReceived\<rparr>) else None)"
| "Writer_step cfg FQuit w =
     (if w_flusher w = FWaiting \<and> w_quit w
      then Some (w\<lparr>w_flusher := FExited\<rparr>) else None)"
| "Writer_step cfg FCheck w =
     (if w_flusher w = FReceived
      then Some (w\<lparr>w_slept := w_slept w @ [bufferSize w < maxSize cfg], w_flusher := FReady\<rparr>)
      else None)"
| "Writer_step cfg FFlush w =
     (if w_flusher w = FReady
      then Some ((Writer_flush cfg w)\<lparr>w_flusher := FFlushed\<rparr>) else None)"
| "Writer_step cfg FBroadcast w =
     (if w_flusher w = FFlushed
      then Some (w\<lparr>w_callers := Broadcast (w_callers w), w_flusher := FWaiting\<rparr>) else None)"

definition wstep :: "('b, 's) params \<Rightarrow> 'b wevent \<Rightarrow> ('b, 's) writer \<Rightarrow> ('b, 's) writer option" where
  "wstep cfg ev w = (if w_panicked w then None else Writer_step cfg ev w)"

fun wrun :: "('b, 's) params \<Rightarrow> 'b wevent list \<Rightarrow> ('b, 's) writer \<Rightarrow> ('b, 's) writer" where
  "wrun cfg [] w = w"
| "wrun cfg (ev # evs) w = wrun cfg evs (case wstep cfg ev w of None \<Rightarrow> w | Some w' \<Rightarrow> w')"


text \<open>A sink \<open>Write\<close> call counts as successful for \<open>Writer.flusher\<close> when it clears the buffer.\<close>

fun flush_ok :: "'b list \<times> int \<times> error option \<Rightarrow> bool" where
  "flush_ok (p, n, err) = (err = None \<and> \<not> n < int (length p))"

section \<open>Sinks and parameters of the examples\<close>

text \<open>
  \<open>countingWriter\<close> of \<open>writer_test.go\<close>: the state is \<open>nWrites\<close>, the field \<open>err\<close> is the
  first argument.  \<open>test_params\<close>, \<open>smallData\<close> and \<open>bigData\<close> are the test's \<open>before()\<close>
  and data (\<open>maxSize = 32\<close>, \<open>timeout\<close> 100 ms, the byte \<open>x\<close> is 120).
\<close>

definition countingWriter :: "error option \<Rightarrow> nat \<Rightarrow> 'b list \<Rightarrow> (int \<times> error option) \<times> nat" where
  "countingWriter err nWrites p =
     (case err of Some e \<Rightarrow> ((0, Some e), nWrites)
      | None \<Rightarrow> ((int (length p), None), nWrites + 1))"

definition test_params :: "error option \<Rightarrow> (8 word, nat) params" where
  "test_params err =
     \<lparr>writer_Write = countingWriter err, writer_Close = None, timeout = 100000000, maxSize = 32\<rparr>"

definition smallData :: "8 word list" where
  "smallData = replicate 3 120"

definition bigData :: "8 word list" where
  "bigData = replicate 64 120"

definition Neh :: error where
  "Neh = SinkError ''Neh''"

text \<open>A sink whose first \<open>Write\<close> fails as \<open>countingWriter\<close> does and whose later ones succeed.\<close>

definition failFirst :: "nat \<Rightarrow> 'b list \<Rightarrow> (int \<times> error option) \<times> nat" where
  "failFirst nCalls p =
     (if nCalls = 0 then ((0, Some Neh), 1) else ((int (length p), None), nCalls + 1))"

text \<open>A sink that takes every byte and still reports an error, a new one at each call.\<close>

definition takeAndFail :: "nat \<Rightarrow> 'b list \<Rightarrow> (int \<times> error option) \<times> nat" where
  "takeAndFail nCalls p =
     ((int (length p), Some (SinkError (if nCalls = 0 then ''first'' else ''later''))), nCalls + 1)"

text \<open>A sink with a \<open>Close\<close> method that succeeds.\<close>

definition closing_params :: "error option \<Rightarrow> (8 word, nat) params" where
  "closing_params err = (test_params err)\<lparr>writer_Close := Some (\<lambda>s. (None, s))\<rparr>"

definition failFirst_params :: "(8 word, nat) params" where
  "failFirst_params =
     \<lparr>writer_Write = failFirst, writer_Close = None, timeout = 100000000, maxSize = 32\<rparr>"

definition takeAndFail_params :: "(8 word, nat) params" where
  "takeAndFail_params =
     \<lparr>writer_Write = takeAndFail, writer_Close = None, timeout = 100000000, maxSize = 32\<rparr>"

text \<open>One full cycle of the worker of \<open>Writer\<close>, and one call of \<open>Write(p)\<close> by caller \<open>c\<close>
  that the cycle serves.\<close>

definition cycle :: "'b wevent list" where
  "cycle = [FRecv, FCheck, FFlush, FBroadcast]"

definition served_write :: "nat \<Rightarrow> 'b list \<Rightarrow> 'b wevent list" where
  "served_write c p = [WAppend c p, WPark c] @ cycle @ [WReturn c]"

section \<open>Invariants of the histories\<close>

text \<open>
  No sink \<open>Write\<close> got an empty payload, and the bytes handed to the sink, followed by
  the buffer, are the bytes appended so far.  For \<open>Writer\<close> the second part counts the
  calls that cleared the buffer only.
\<close>

definition dinv :: "('b, 's) dbw \<Rightarrow> bool" where
  "dinv w \<longleftrightarrow> [] \<notin> set (d_calls w) \<and> concat (d_calls w) @ d_buffer w = d_appended w"

definition winv :: "('b, 's) writer \<Rightarrow> bool" where
  "winv w \<longleftrightarrow> [] \<notin> fst ` set (w_calls w)
     \<and> concat (map fst (filter flush_ok (w_calls w))) @ w_buffer w = w_appended w"

section \<open>Basic facts\<close>

lemmas wsimps = wstep_def NewWriter_def Writer_flush_def bufferSize_def Broadcast_def
  Writer_Write_result_def test_params_def countingWriter_def smallData_def bigData_def
  failFirst_def failFirst_params_def Neh_def Writer_Close_def cycle_def served_write_def

lemmas dsimps = dstep_def NewDeadlineBufWriter_def flushLocked_def DeadlineBufWriter_Write_def
  DeadlineBufWriter_Close_def test_params_def countingWriter_def smallData_def bigData_def
  Neh_def takeAndFail_def takeAndFail_params_def Close_call_def

lemma drun_append: "drun cfg (a @ b) w = drun cfg b (drun cfg a w)"
  by (induction a arbitrary: w) simp_all


lemma flushLocked_dinv: "dinv w \<Longrightarrow> flushLocked cfg w = (r, w') \<Longrightarrow> dinv w'"
  by (auto simp: dinv_def flushLocked_def split: if_splits prod.splits)

lemma Write_dinv: "dinv w \<Longrightarrow> DeadlineBufWriter_Write cfg p w = (r, w') \<Longrightarrow> dinv w'"
  by (auto simp: dinv_def DeadlineBufWriter_Write_def flushLocked_def Let_def
           split: if_splits prod.splits option.splits)

lemma dinv_upd:
  "dinv (w\<lparr>d_returns := r\<rparr>) = dinv w"
  "dinv (w\<lparr>d_worker := pc\<rparr>) = dinv w"
  "dinv (w\<lparr>d_errors := e\<rparr>) = dinv w"
  "dinv (w\<lparr>d_notify := b\<rparr>) = dinv w"
  by (simp_all add: dinv_def)

lemma dstep_dinv:
  "dinv w \<Longrightarrow> \<not> Close_action ev \<Longrightarrow> dstep cfg ev w = Some w' \<Longrightarrow> dinv w'"
  by (cases ev)
     (auto simp: dstep_def dinv_upd split: if_splits prod.splits option.splits dpc.splits
           dest: Write_dinv flushLocked_dinv)

lemma drun_dinv:
  "dinv w \<Longrightarrow> \<forall>ev\<in>set sched. \<not> Close_action ev \<Longrightarrow> dinv (drun cfg sched w)"
proof (induction sched arbitrary: w)
  case Nil
  then show ?case by simp
next
  case (Cons ev sched)
  show ?case
  proof (cases "dstep cfg ev w")
    case None
    then show ?thesis using Cons by simp
  next
    case (Some w')
    then have "dinv w'" using Cons.prems dstep_dinv[of w ev cfg w'] by simp
    then show ?thesis using Some Cons by simp
  qed
qed

text \<open>A call of \<open>Close\<close> that no other goroutine interleaves with is \<open>DeadlineBufWriter_Close\<close>.\<close>

lemma Close_call_flush:
  assumes "d_closer w = CIdle" and "\<not> d_panicked w" and "d_errors w = None"
  shows "drun cfg [DCloseErrors, DCloseLen, DCloseWrite, DCloseCompare, DCloseTruncate] w =
           (case flushLocked cfg w of
              (Some e, w1) \<Rightarrow> w1\<lparr>d_returns := d_returns w1 @ [CloseRet (Returns (Some e))]\<rparr>
            | (None, w1) \<Rightarrow> w1\<lparr>d_closer := CAtNotify\<rparr>)"
proof (cases "d_buffer w = []")
  case True
  then show ?thesis using assms by (simp add: dstep_def flushLocked_def)
next
  case False
  obtain n err s' where r: "writer_Write cfg (d_sink w) (d_buffer w) = ((n, err), s')"
    by (metis prod.exhaust)
  show ?thesis
  proof (cases "if n \<noteq> int (length (d_buffer w)) then Some ErrShortWrite else err")
    case None
    then show ?thesis using assms False r by (simp add: dstep_def flushLocked_def)
  next
    case (Some e)
    then show ?thesis using assms False r by (simp add: dstep_def flushLocked_def)
  qed
qed

lemma Close_call_tail:
  assumes "\<not> d_panicked w"
  shows "drun cfg [DCloseNotify, DCloseSink] (w\<lparr>d_closer := CAtNotify\<rparr>) =
           (if d_notify_closed w
            then w\<lparr>d_panicked := True, d_closer := CIdle,
                   d_returns := d_returns w @ [CloseRet Panics]\<rparr>
            else (case writer_Close cfg of
                    None \<Rightarrow> w\<lparr>d_notify_closed := True, d_closer := CIdle,
                                 d_returns := d_returns w @ [CloseRet (Returns None)]\<rparr>
                  | Some cl \<Rightarrow>
                      (case cl (d_sink w) of
                         (e, s') \<Rightarrow> w\<lparr>d_notify_closed := True, d_sink := s',
                                        d_closes := d_closes w + 1, d_closer := CIdle,
                                        d_returns := d_returns w @ [CloseRet (Returns e)]\<rparr>)))"
proof (cases "d_notify_closed w")
  case True
  then show ?thesis using assms by (simp add: dstep_def)
next
  case False
  show ?thesis
  proof (cases "writer_Close cfg")
    case None
    then show ?thesis using assms False by (simp add: dstep_def)
  next
    case (Some cl)
    obtain e s' where "cl (d_sink w) = (e, s')" by (metis prod.exhaust)
    then show ?thesis using assms False Some by (simp add: dstep_def)
  qed
qed

lemma Close_call_whole:
  assumes "d_closer w = CIdle" and "\<not> d_panicked w"
  shows "drun cfg Close_call w =
           (case DeadlineBufWriter_Close cfg w of
              (r, w') \<Rightarrow> w'\<lparr>d_returns := d_returns w' @ [CloseRet r]\<rparr>)"
proof (cases "d_errors w")
  case (Some e)
  then show ?thesis
    using assms by (simp add: Close_call_def dstep_def DeadlineBufWriter_Close_def)
next
  case None
  have split: "Close_call = [DCloseErrors, DCloseLen, DCloseWrite, DCloseCompare, DCloseTruncate]
                  @ [DCloseNotify, DCloseSink :: 'a devent]"
    by (simp add: Close_call_def)
  obtain r w1 where f: "flushLocked cfg w = (r, w1)" by (metis prod.exhaust)
  have w1: "d_closer w1 = CIdle" "\<not> d_panicked w1" "d_returns w1 = d_returns w"
    using f assms by (auto simp: flushLocked_def split: if_splits prod.splits)
  show ?thesis
  proof (cases r)
    case (Some e)
    have "drun cfg [DCloseNotify, DCloseSink]
            (w1\<lparr>d_returns := d_returns w1 @ [CloseRet (Returns (Some e))]\<rparr>)
          = w1\<lparr>d_returns := d_returns w1 @ [CloseRet (Returns (Some e))]\<rparr>"
      using w1 by (simp add: dstep_def)
    then show ?thesis
      unfolding split drun_append Close_call_flush[OF assms None]
      using f Some None by (simp add: DeadlineBufWriter_Close_def)
  next
    case rNone: None
    note t = Close_call_tail[of w1 cfg, OF w1(2)]
    show ?thesis
      unfolding split drun_append Close_call_flush[OF assms None]
      using f rNone None w1
      by (auto simp add: t DeadlineBufWriter_Close_def Let_def simp del: drun.simps
               split: option.splits prod.splits)
  qed
qed

lemma Close_dinv: "dinv w \<Longrightarrow> DeadlineBufWriter_Close cfg w = (r, w') \<Longrightarrow> dinv w'"
  by (auto simp: dinv_def DeadlineBufWriter_Close_def flushLocked_def Let_def
           split: if_splits prod.splits option.splits)

lemma Close_closer: "DeadlineBufWriter_Close cfg w = (r, w') \<Longrightarrow> d_closer w' = d_closer w"
  by (auto simp: DeadlineBufWriter_Close_def flushLocked_def Let_def
           split: if_splits prod.splits option.splits)

lemma dstep_closer:
  "\<not> Close_action ev \<Longrightarrow> dstep cfg ev w = Some w' \<Longrightarrow> d_closer w' = d_closer w"
  by (cases ev)
     (auto simp: dstep_def DeadlineBufWriter_Write_def flushLocked_def Let_def
           split: if_splits prod.splits option.splits dpc.splits)

lemma drun_panicked: "d_panicked w \<Longrightarrow> drun cfg sched w = w"
  by (induction sched) (simp_all add: dstep_def)

lemma drun_item:
  assumes "dinv w" and "d_closer w = CIdle" and "apart it"
  shows "dinv (drun cfg (actions it) w) \<and> d_closer (drun cfg (actions it) w) = CIdle"
proof (cases it)
  case (Act ev)
  show ?thesis
  proof (cases "dstep cfg ev w")
    case None
    then show ?thesis using assms Act by simp
  next
    case (Some w')
    then show ?thesis
      using assms Act dstep_dinv[of w ev cfg w'] dstep_closer[of ev cfg w w'] by simp
  qed
next
  case WholeClose
  show ?thesis
  proof (cases "d_panicked w")
    case True
    then show ?thesis using assms WholeClose by (simp add: drun_panicked)
  next
    case False
    obtain r w' where c: "DeadlineBufWriter_Close cfg w = (r, w')" by (metis prod.exhaust)
    have "drun cfg Close_call w = w'\<lparr>d_returns := d_returns w' @ [CloseRet r]\<rparr>"
      using Close_call_whole[OF assms(2) False, of cfg] c by simp
    then show ?thesis
      using WholeClose Close_dinv[OF assms(1) c] Close_closer[OF c] assms(2)
      by (simp add: dinv_upd)
  qed
qed

lemma drun_items:
  "dinv w \<Longrightarrow> d_closer w = CIdle \<Longrightarrow> \<forall>it\<in>set its. apart it
     \<Longrightarrow> dinv (drun cfg (concat (map actions its)) w)"
proof (induction its arbitrary: w)
  case Nil
  then show ?case by simp
next
  case (Cons it its)
  have "dinv (drun cfg (actions it) w) \<and> d_closer (drun cfg (actions it) w) = CIdle"
    using drun_item[of w it cfg] Cons.prems by simp
  then have "dinv (drun cfg (concat (map actions its)) (drun cfg (actions it) w))"
    using Cons by simp
  then show ?case by (simp add: drun_append del: drun.simps)
qed






lemma New_dinv: "dinv (NewDeadlineBufWriter s)"
  by (simp add: dinv_def NewDeadlineBufWriter_def)

lemma Writer_flush_winv: "winv w \<Longrightarrow> winv (Writer_flush cfg w)"
  by (auto simp: winv_def Writer_flush_def split: if_splits prod.splits option.splits)

lemma winv_upd:
  "winv (w\<lparr>w_flusher := pc\<rparr>) = winv w"
  "winv (w\<lparr>w_callers := cs\<rparr>) = winv w"
  "winv (w\<lparr>w_notify := b\<rparr>) = winv w"
  "winv (w\<lparr>w_slept := sl\<rparr>) = winv w"
  "winv (w\<lparr>w_close_returns := rs\<rparr>) = winv w"
  "winv (w\<lparr>w_quit := b\<rparr>) = winv w"
  "winv (w\<lparr>w_panicked := b\<rparr>) = winv w"
  "winv (w\<lparr>w_sink := s\<rparr>) = winv w"
  "winv (w\<lparr>w_closes := n\<rparr>) = winv w"
  by (simp_all add: winv_def)

lemma winv_append:
  "winv w \<Longrightarrow> winv (w\<lparr>w_buffer := w_buffer w @ p, w_appended := w_appended w @ p\<rparr>)"
  by (simp add: winv_def)

lemma wstep_winv: "winv w \<Longrightarrow> wstep cfg ev w = Some w' \<Longrightarrow> winv w'"
  by (cases ev)
     (auto simp: wstep_def Writer_Close_def Let_def winv_upd Writer_flush_winv winv_append
           split: if_splits prod.splits option.splits wpc.splits)

lemma wrun_winv: "winv w \<Longrightarrow> winv (wrun cfg sched w)"
  by (induction sched arbitrary: w) (auto split: option.splits dest: wstep_winv)

lemma New_winv: "winv (NewWriter s)"
  by (simp add: winv_def NewWriter_def)




section \<open>Coalescing\<close>




section \<open>DeadlineBufWriter.Write with a queued error\<close>

text \<open>
  Claim C8.  A call of \<open>DeadlineBufWriter.Write\<close> that finds an error queued in the
  channel \<open>errors\<close> returns \<open>(0, that error)\<close>, takes the error out of the channel and
  changes nothing else: the payload is not appended.  With no error queued the payload
  is appended (the bytes appended so far grow by \<open>p\<close>); the buffer is then \<open>buffer @ p\<close>,
  or, above \<open>maxSize\<close>, what \<open>flushLocked\<close> leaves of \<open>buffer @ p\<close>.  A queued error stays
  queued through every action of the worker: only \<open>Write\<close> and \<open>Close\<close> take it out.
\<close>

theorem C8_queued_error_returned:
  "(d_errors w = Some e \<longrightarrow>
      DeadlineBufWriter_Write cfg p w = (Returns (0, Some e), w\<lparr>d_errors := None\<rparr>))
   \<and> (d_errors w = None \<longrightarrow>
        d_appended (snd (DeadlineBufWriter_Write cfg p w)) = d_appended w @ p
        \<and> (if int (length (d_buffer w @ p)) > maxSize cfg
           then snd (DeadlineBufWriter_Write cfg p w) =
                snd (flushLocked cfg
                       (w\<lparr>d_buffer := d_buffer w @ p, d_appended := d_appended w @ p\<rparr>))
           else d_buffer (snd (DeadlineBufWriter_Write cfg p w)) = d_buffer w @ p))
   \<and> (d_errors w = Some e \<and> ev \<in> {DTake, DFlush, DSend, DExit} \<and> dstep cfg ev w = Some w'
        \<longrightarrow> d_errors w' = Some e)"
proof (intro conjI impI)
  assume "d_errors w = Some e"
  then show "DeadlineBufWriter_Write cfg p w = (Returns (0, Some e), w\<lparr>d_errors := None\<rparr>)"
    by (simp add: DeadlineBufWriter_Write_def)
next
  assume "d_errors w = None"
  then show "d_appended (snd (DeadlineBufWriter_Write cfg p w)) = d_appended w @ p"
    by (auto simp add: DeadlineBufWriter_Write_def Let_def flushLocked_def
             split: prod.splits option.splits if_splits)
next
  assume "d_errors w = None"
  then show "if int (length (d_buffer w @ p)) > maxSize cfg
           then snd (DeadlineBufWriter_Write cfg p w) =
                snd (flushLocked cfg
                       (w\<lparr>d_buffer := d_buffer w @ p, d_appended := d_appended w @ p\<rparr>))
           else d_buffer (snd (DeadlineBufWriter_Write cfg p w)) = d_buffer w @ p"
    by (auto simp add: DeadlineBufWriter_Write_def Let_def
             split: prod.splits option.splits if_splits)
next
  assume "d_errors w = Some e \<and> ev \<in> {DTake, DFlush, DSend, DExit} \<and> dstep cfg ev w = Some w'"
  then show "d_errors w' = Some e"
    by (auto simp add: dstep_def flushLocked_def
             split: prod.splits option.splits if_splits dpc.splits)
qed

theorem C8_queued_error_returned_witness:
  "DeadlineBufWriter_Write (test_params None) smallData
       ((NewDeadlineBufWriter 0)\<lparr>d_errors := Some Neh\<rparr>)
     = (Returns (0, Some Neh), NewDeadlineBufWriter 0)
   \<and> d_buffer (snd (DeadlineBufWriter_Write (test_params None) smallData (NewDeadlineBufWriter 0)))
       = smallData
   \<and> dstep (test_params None) DTake ((NewDeadlineBufWriter 0)\<lparr>d_notify := True, d_errors := Some Neh\<rparr>)
       = Some ((NewDeadlineBufWriter 0)\<lparr>d_errors := Some Neh, d_worker := DSleeping\<rparr>)
   \<and> d_errors ((NewDeadlineBufWriter (0::nat))\<lparr>d_errors := Some Neh, d_worker := DSleeping\<rparr>
               :: (8 word, nat) dbw) = Some Neh"
  using C8_queued_error_returned
          [where w = "(NewDeadlineBufWriter 0)\<lparr>d_errors := Some Neh\<rparr>" and e = Neh
             and cfg = "test_params None" and p = smallData and ev = DSend
             and w' = "NewDeadlineBufWriter 0"]
        C8_queued_error_returned
          [where w = "NewDeadlineBufWriter 0" and e = Neh
             and cfg = "test_params None" and p = smallData and ev = DSend
             and w' = "NewDeadlineBufWriter 0"]
        C8_queued_error_returned
          [where w = "(NewDeadlineBufWriter 0)\<lparr>d_notify := True, d_errors := Some Neh\<rparr>"
             and e = Neh and cfg = "test_params None" and p = smallData and ev = DTake
             and w' = "(NewDeadlineBufWriter 0)\<lparr>d_errors := Some Neh, d_worker := DSleeping\<rparr>"]
  by (simp add: NewDeadlineBufWriter_def test_params_def smallData_def dstep_def)

section \<open>DeadlineBufWriter.Close after a failed final flush\<close>

text \<open>
  Claim C10.  When no error is queued and the final \<open>flushLocked\<close> of
  \<open>DeadlineBufWriter.Close\<close> fails, \<open>Close\<close> returns that error and does nothing more:
  the channel \<open>notify\<close> is not closed and the sink's \<open>Close\<close> is not called.  Conversely
  \<open>notify\<close> gets closed, or the sink's \<open>Close\<close> called, only when no error was queued
  and the final flush returned \<open>nil\<close> (as it does on an empty buffer); and then both
  happen (the sink's \<open>Close\<close> when the sink has one).
\<close>

theorem C10_Close_failed_flush:
  "(d_errors w = None \<and> fst (flushLocked cfg w) = Some e \<longrightarrow>
      DeadlineBufWriter_Close cfg w = (Returns (Some e), snd (flushLocked cfg w))
      \<and> d_notify_closed (snd (DeadlineBufWriter_Close cfg w)) = d_notify_closed w
      \<and> d_closes (snd (DeadlineBufWriter_Close cfg w)) = d_closes w)
   \<and> ((d_notify_closed (snd (DeadlineBufWriter_Close cfg w)) \<and> \<not> d_notify_closed w)
        \<or> d_closes (snd (DeadlineBufWriter_Close cfg w)) \<noteq> d_closes w
      \<longrightarrow> d_errors w = None \<and> fst (flushLocked cfg w) = None)
   \<and> (d_errors w = None \<and> fst (flushLocked cfg w) = None \<and> \<not> d_notify_closed w \<longrightarrow>
        d_notify_closed (snd (DeadlineBufWriter_Close cfg w))
        \<and> d_closes (snd (DeadlineBufWriter_Close cfg w)) =
            d_closes w + (case writer_Close cfg of None \<Rightarrow> 0 | Some cl \<Rightarrow> 1))"
  by (intro conjI impI)
     (auto simp add: DeadlineBufWriter_Close_def Let_def flushLocked_def
           split: prod.splits option.splits if_splits)

theorem C10_Close_failed_flush_witness:
  "DeadlineBufWriter_Close (closing_params (Some Neh))
       ((NewDeadlineBufWriter 0)\<lparr>d_buffer := smallData\<rparr>)
     = (Returns (Some ErrShortWrite), (NewDeadlineBufWriter 0)\<lparr>d_calls := [smallData]\<rparr>)
   \<and> d_notify_closed (snd (DeadlineBufWriter_Close (closing_params None)
                              ((NewDeadlineBufWriter 0)\<lparr>d_buffer := smallData\<rparr>)))
   \<and> d_closes (snd (DeadlineBufWriter_Close (closing_params None)
                       ((NewDeadlineBufWriter 0)\<lparr>d_buffer := smallData\<rparr>))) = 1"
  using C10_Close_failed_flush
          [where w = "(NewDeadlineBufWriter 0)\<lparr>d_buffer := smallData\<rparr>"
             and cfg = "closing_params (Some Neh)" and e = ErrShortWrite]
        C10_Close_failed_flush
          [where w = "(NewDeadlineBufWriter 0)\<lparr>d_buffer := smallData\<rparr>"
             and cfg = "closing_params None" and e = ErrShortWrite]
  by (simp add: flushLocked_def closing_params_def test_params_def countingWriter_def
                smallData_def NewDeadlineBufWriter_def)

section \<open>The stored error of the blocking Writer\<close>

lemma Writer_flush_err_kept: "w_err w = Some e \<Longrightarrow> w_err (Writer_flush cfg w) \<noteq> None"
  by (auto simp: Writer_flush_def split: if_splits prod.splits option.splits)

lemma wstep_err_kept:
  assumes "w_err w = Some e" and "wstep cfg ev w = Some w'"
  shows "w_err w' \<noteq> None"
  using assms Writer_flush_err_kept[OF assms(1), of cfg]
  by (cases ev)
     (auto simp: wstep_def Writer_Close_def Let_def
           split: if_splits prod.splits option.splits wpc.splits)

text \<open>
  Claim C2.  The sink fails at its first \<open>Write\<close> and succeeds afterwards.  Caller 0
  writes the byte 97, the worker runs one cycle, the call returns \<open>(0, Neh)\<close>: the
  error reaches the waiting caller.  The same caller then writes the byte 98 and the
  worker runs a second cycle, in which the sink takes both bytes and the buffer is
  cleared.  The field \<open>err\<close> still holds \<open>Neh\<close>, and this second call returns
  \<open>(0, Neh)\<close> too, where the claim has \<open>(1, nil)\<close>: nothing in \<open>Writer.flusher\<close> sets
  \<open>w.err\<close> back to \<open>nil\<close> (lemma \<open>wstep_err_kept\<close> above).
\<close>

theorem C2_error_not_cleared:
  "w_callers (wrun failFirst_params (served_write 0 [97]) (NewWriter 0)) 0 = WDone 0 (Some Neh)
   \<and> w_calls (wrun failFirst_params (served_write 0 [97] @ served_write 0 [98]) (NewWriter 0))
       = [([97], 0, Some Neh), ([97, 98], 2, None)]
   \<and> w_buffer (wrun failFirst_params (served_write 0 [97] @ served_write 0 [98]) (NewWriter 0))
       = []
   \<and> w_err (wrun failFirst_params (served_write 0 [97] @ served_write 0 [98]) (NewWriter 0))
       = Some Neh
   \<and> w_callers (wrun failFirst_params (served_write 0 [97] @ served_write 0 [98]) (NewWriter 0)) 0
       = WDone 0 (Some Neh)"
  by (simp add: wsimps)

section \<open>The buffer after a failed flush\<close>




section \<open>Buffer integrity\<close>

text \<open>
  Claim C4, as amended.  After a successful flush the buffer is empty, in both
  variants.  In the \<open>DeadlineBufWriter\<close>, after any schedule on a new instance in
  which no call of \<open>Close\<close> overlaps another action, the payloads of the sink's
  \<open>Write\<close> calls, one after the other, followed by the buffer, are exactly the bytes
  appended so far, in order: no appended byte went to the sink twice.  In the blocking
  \<open>Writer\<close>, after any schedule, the same holds of the payloads of the calls that
  succeeded: a byte of a successful flush is never sent again.  (The bytes of a failed
  flush of the \<open>Writer\<close> stay in the buffer and are sent again, see the
  counterexample.  A final flush of
  \<open>DeadlineBufWriter.Close\<close> that overlaps a flush of the worker, as it can without the
  mutex, is left out here; the counterexample shows one.)
\<close>

theorem C4_buffer_integrity:
  "(flush_ok (w_buffer v, fst (writer_Write cfg (w_sink v) (w_buffer v)))
      \<longrightarrow> w_buffer (Writer_flush cfg v) = [])
   \<and> (fst (flushLocked cfg w) = None \<longrightarrow> d_buffer (snd (flushLocked cfg w)) = [])
   \<and> ((\<forall>it\<in>set its. apart it) \<longrightarrow>
        concat (d_calls (drun cfg (concat (map actions its)) (NewDeadlineBufWriter s)))
          @ d_buffer (drun cfg (concat (map actions its)) (NewDeadlineBufWriter s))
        = d_appended (drun cfg (concat (map actions its)) (NewDeadlineBufWriter s)))
   \<and> concat (map fst (filter flush_ok (w_calls (wrun cfg sched' (NewWriter s)))))
        @ w_buffer (wrun cfg sched' (NewWriter s))
      = w_appended (wrun cfg sched' (NewWriter s))"
proof (intro conjI impI)
  show "w_buffer (Writer_flush cfg v) = []"
    if "flush_ok (w_buffer v, fst (writer_Write cfg (w_sink v) (w_buffer v)))"
    using that by (auto simp: Writer_flush_def split: prod.splits option.splits)
  show "d_buffer (snd (flushLocked cfg w)) = []"
    by (simp add: flushLocked_def split: prod.splits)
  show "concat (d_calls (drun cfg (concat (map actions its)) (NewDeadlineBufWriter s)))
        @ d_buffer (drun cfg (concat (map actions its)) (NewDeadlineBufWriter s))
      = d_appended (drun cfg (concat (map actions its)) (NewDeadlineBufWriter s))"
    if "\<forall>it\<in>set its. apart it"
    using drun_items[OF New_dinv _ that, of s cfg]
    by (simp add: dinv_def NewDeadlineBufWriter_def del: drun.simps)
  show "concat (map fst (filter flush_ok (w_calls (wrun cfg sched' (NewWriter s)))))
        @ w_buffer (wrun cfg sched' (NewWriter s))
      = w_appended (wrun cfg sched' (NewWriter s))"
    using wrun_winv[OF New_winv, of cfg sched' s] by (simp add: winv_def)
qed

theorem C4_buffer_integrity_witness:
  "flush_ok (smallData, fst (writer_Write (test_params None) 0 smallData))
   \<and> w_buffer (Writer_flush (test_params None) ((NewWriter 0)\<lparr>w_buffer := smallData\<rparr>)) = []
   \<and> fst (flushLocked (test_params None) ((NewDeadlineBufWriter 0)\<lparr>d_buffer := smallData\<rparr>))
       = None
   \<and> d_buffer (snd (flushLocked (test_params None)
                      ((NewDeadlineBufWriter 0)\<lparr>d_buffer := smallData\<rparr>))) = []
   \<and> concat (d_calls (drun (test_params None)
                  (concat (map actions [Act (DWrite bigData), Act (DWrite smallData), Act DTake,
                                        WholeClose, Act DFlush]))
                  (NewDeadlineBufWriter 0)))
        @ d_buffer (drun (test_params None)
                  (concat (map actions [Act (DWrite bigData), Act (DWrite smallData), Act DTake,
                                        WholeClose, Act DFlush]))
                  (NewDeadlineBufWriter 0))
      = d_appended (drun (test_params None)
                  (concat (map actions [Act (DWrite bigData), Act (DWrite smallData), Act DTake,
                                        WholeClose, Act DFlush]))
                  (NewDeadlineBufWriter 0))"
  using C4_buffer_integrity
          [where v = "(NewWriter 0)\<lparr>w_buffer := smallData\<rparr>"
             and w = "(NewDeadlineBufWriter 0)\<lparr>d_buffer := smallData\<rparr>"
             and cfg = "test_params None" and s = 0
             and its = "[Act (DWrite bigData), Act (DWrite smallData), Act DTake,
                         WholeClose, Act DFlush]" and sched' = "[]"]
  by (simp add: NewDeadlineBufWriter_def NewWriter_def test_params_def countingWriter_def
                smallData_def flushLocked_def del: drun.simps)

text \<open>
  The blocking \<open>Writer\<close> with a sink that fails once: the bytes appended are 97 and 98,
  each once, and the byte 97 is in the payload of the first and of the second call of
  the sink's \<open>Write\<close>.  And the \<open>DeadlineBufWriter\<close> with a sink that never fails,
  \<open>Close\<close> next to the worker: the write of one byte wakes the worker; \<open>Close\<close> reads
  and sends the buffer, the worker's flush sends the byte again.
\<close>

theorem C4_buffer_integrity_counterexample:
  "w_appended (wrun failFirst_params (served_write 0 [97] @ served_write 0 [98]) (NewWriter 0))
     = [97, 98]
   \<and> map fst (w_calls (wrun failFirst_params (served_write 0 [97] @ served_write 0 [98])
                         (NewWriter 0)))
     = [[97], [97, 98]]
   \<and> 97 \<in> set (fst (w_calls (wrun failFirst_params
                      (served_write 0 [97] @ served_write 0 [98]) (NewWriter 0)) ! 0))
   \<and> 97 \<in> set (fst (w_calls (wrun failFirst_params
                      (served_write 0 [97] @ served_write 0 [98]) (NewWriter 0)) ! 1))
   \<and> d_calls (drun (test_params None)
                 [DWrite [1], DTake, DCloseErrors, DCloseLen, DCloseWrite, DFlush,
                  DCloseCompare, DCloseTruncate, DCloseNotify, DCloseSink]
                 (NewDeadlineBufWriter 0)) = [[1], [1]]"
  by (simp add: wsimps dsimps)

section \<open>The size threshold\<close>

text \<open>
  Claim C5, as amended.  A \<open>DeadlineBufWriter.Write\<close> (no error queued) after which the
  buffer is longer than \<open>maxSize\<close> calls \<open>flushLocked\<close> itself and returns its result:
  \<open>(0, err)\<close> or \<open>(len(p), nil)\<close>.  When the buffer is then at most \<open>maxSize\<close> long, so
  also when it is exactly \<open>maxSize\<close> long, nothing is flushed by the call: it signals
  \<open>notify\<close> and returns \<open>(len(p), nil)\<close>, and the bytes wait for the worker.  In the
  blocking \<open>Writer\<close> the worker skips the sleep exactly when the buffer size is at least
  \<open>maxSize\<close>.
\<close>

theorem C5_threshold:
  "(d_errors w = None \<and> maxSize cfg < int (length (d_buffer w @ p)) \<longrightarrow>
      DeadlineBufWriter_Write cfg p w =
        (case flushLocked cfg (w\<lparr>d_buffer := d_buffer w @ p, d_appended := d_appended w @ p\<rparr>) of
           (Some e, w') \<Rightarrow> (Returns (0, Some e), w')
         | (None, w') \<Rightarrow> (Returns (int (length p), None), w')))
   \<and> (d_errors w = None \<and> int (length (d_buffer w @ p)) \<le> maxSize cfg \<and> \<not> d_notify_closed w \<longrightarrow>
      DeadlineBufWriter_Write cfg p w =
        (Returns (int (length p), None),
         w\<lparr>d_buffer := d_buffer w @ p, d_appended := d_appended w @ p, d_notify := True\<rparr>))
   \<and> (w_flusher v = FReceived \<and> \<not> w_panicked v \<longrightarrow>
      (\<exists>v'. wstep cfg' FCheck v = Some v'
            \<and> w_slept v' = w_slept v @ [\<not> maxSize cfg' \<le> bufferSize v]
            \<and> w_buffer v' = w_buffer v \<and> w_calls v' = w_calls v))"
  by (intro conjI impI)
     (auto simp add: DeadlineBufWriter_Write_def Let_def wstep_def
           split: prod.splits option.splits if_splits)

theorem C5_threshold_witness:
  "DeadlineBufWriter_Write (test_params None) bigData (NewDeadlineBufWriter 0)
     = (Returns (64, None),
        (NewDeadlineBufWriter 0)\<lparr>d_sink := 1, d_calls := [bigData], d_appended := bigData\<rparr>)
   \<and> DeadlineBufWriter_Write (test_params None) smallData (NewDeadlineBufWriter 0)
     = (Returns (3, None),
        (NewDeadlineBufWriter 0)\<lparr>d_buffer := smallData, d_notify := True,
                                  d_appended := smallData\<rparr>)
   \<and> (\<exists>v'. wstep (test_params None) FCheck
               ((NewWriter 0)\<lparr>w_buffer := bigData, w_flusher := FReceived\<rparr>) = Some v'
           \<and> w_slept v' = [False])"
  using C5_threshold
          [where w = "NewDeadlineBufWriter 0" and cfg = "test_params None" and p = bigData
             and v = "(NewWriter 0)\<lparr>w_buffer := bigData, w_flusher := FReceived\<rparr>"
             and cfg' = "test_params None"]
        C5_threshold
          [where w = "NewDeadlineBufWriter 0" and cfg = "test_params None" and p = smallData
             and v = "(NewWriter 0)\<lparr>w_buffer := bigData, w_flusher := FReceived\<rparr>"
             and cfg' = "test_params None"]
  by (simp add: wsimps dsimps)

text \<open>
  A write of 32 bytes with \<open>maxSize = 32\<close> on a new \<open>DeadlineBufWriter\<close>: the buffer
  size equals \<open>maxSize\<close>, the sink is not called, the bytes stay in the buffer and the
  worker is signalled.
\<close>

theorem C5_threshold_counterexample:
  "DeadlineBufWriter_Write (test_params None) (replicate 32 120) (NewDeadlineBufWriter 0)
     = (Returns (32, None),
        (NewDeadlineBufWriter 0)\<lparr>d_buffer := replicate 32 120, d_notify := True,
                                  d_appended := replicate 32 120\<rparr>)
   \<and> int (length (d_buffer (snd (DeadlineBufWriter_Write (test_params None) (replicate 32 120)
                                     (NewDeadlineBufWriter 0))))) = maxSize (test_params None)
   \<and> d_calls (snd (DeadlineBufWriter_Write (test_params None) (replicate 32 120)
                       (NewDeadlineBufWriter 0))) = []"
  by (simp add: dsimps)

section \<open>Which error is reported\<close>

lemma Writer_flush_sink_error:
  "w_buffer v \<noteq> [] \<Longrightarrow> writer_Write cfg (w_sink v) (w_buffer v) = ((n, Some e), s')
     \<Longrightarrow> w_err (Writer_flush cfg v) = Some e"
  by (simp add: Writer_flush_def)

text \<open>
  Claim C6.  The sink of the tests with \<open>err = Neh\<close> returns \<open>(0, Neh)\<close>.  In the
  \<open>DeadlineBufWriter\<close> a write of \<open>bigData\<close> (64 bytes, flushed by the call itself)
  returns \<open>(0, ErrShortWrite)\<close>, and a write of \<open>smallData\<close> followed by \<open>Close\<close> makes
  \<open>Close\<close> return \<open>ErrShortWrite\<close>: \<open>flushLocked\<close> replaces the sink's error whenever
  \<open>n\<close> differs from the buffer length.  The claim has \<open>Neh\<close> in both places.  The
  blocking \<open>Writer\<close> tests the error first and records \<open>Neh\<close> (last conjunct, and lemma
  \<open>Writer_flush_sink_error\<close> for every sink).
\<close>

theorem C6_sink_error_replaced:
  "fst (DeadlineBufWriter_Write (test_params (Some Neh)) bigData (NewDeadlineBufWriter 0))
     = Returns (0, Some ErrShortWrite)
   \<and> d_returns (drun (test_params (Some Neh)) ([DWrite smallData] @ Close_call)
                   (NewDeadlineBufWriter 0))
     = [WriteRet (Returns (3, None)), CloseRet (Returns (Some ErrShortWrite))]
   \<and> fst (DeadlineBufWriter_Close (test_params (Some Neh))
             (snd (DeadlineBufWriter_Write (test_params (Some Neh)) smallData
                     (NewDeadlineBufWriter 0))))
     = Returns (Some ErrShortWrite)
   \<and> w_err (Writer_flush (test_params (Some Neh)) ((NewWriter 0)\<lparr>w_buffer := bigData\<rparr>))
     = Some (SinkError ''Neh'')"
  by (simp add: wsimps dsimps)

section \<open>The send on the error channel\<close>

text \<open>
  Claim C7, as amended.  When the worker of the \<open>DeadlineBufWriter\<close> holds the error
  \<open>e\<close> of a failed flush and the channel \<open>errors\<close> still holds an error \<open>e0\<close>, the
  worker is blocked at the send \<open>w.errors <- err\<close>: it can take no action.  The
  queued error leaves the channel only through a call of \<open>Write\<close> or the first
  statement of \<open>Close\<close>, which return it.  Once the channel is empty, be it after such
  a \<open>Write\<close> or such a \<open>Close\<close>, the send puts \<open>e\<close> into the channel and the worker goes
  back to waiting; the next \<open>Write\<close> returns \<open>(0, e)\<close>, the next \<open>Close\<close> returns \<open>e\<close>.
  No error is dropped.
\<close>

theorem C7_error_send_blocks:
  "(d_worker w = DSending e \<and> d_errors w = Some e0 \<longrightarrow>
      (\<forall>ev\<in>{DTake, DFlush, DSend, DExit}. dstep cfg ev w = None))
   \<and> (d_errors w = Some e0 \<and> dstep cfg ev w = Some w' \<and> d_errors w' \<noteq> Some e0 \<longrightarrow>
        is_write ev \<or> ev = DCloseErrors)
   \<and> (d_worker w = DSending e \<and> d_errors w = None \<and> \<not> d_panicked w \<longrightarrow>
        dstep cfg DSend w = Some (w\<lparr>d_errors := Some e, d_worker := DWaiting\<rparr>))
   \<and> (d_worker w = DSending e \<and> d_errors w = Some e0 \<and> \<not> d_panicked w \<longrightarrow>
        DeadlineBufWriter_Write cfg p w = (Returns (0, Some e0), w\<lparr>d_errors := None\<rparr>)
        \<and> dstep cfg DSend (snd (DeadlineBufWriter_Write cfg p w))
            = Some (w\<lparr>d_errors := Some e, d_worker := DWaiting\<rparr>)
        \<and> DeadlineBufWriter_Close cfg w = (Returns (Some e0), w\<lparr>d_errors := None\<rparr>)
        \<and> dstep cfg DSend (snd (DeadlineBufWriter_Close cfg w))
            = Some (w\<lparr>d_errors := Some e, d_worker := DWaiting\<rparr>))
   \<and> (d_worker w = DSending e \<and> d_errors w = Some e0 \<and> \<not> d_panicked w
        \<and> d_closer w = CIdle \<longrightarrow>
        dstep cfg DCloseErrors w
          = Some (w\<lparr>d_errors := None,
                    d_returns := d_returns w @ [CloseRet (Returns (Some e0))]\<rparr>))
   \<and> fst (DeadlineBufWriter_Write cfg p (w\<lparr>d_errors := Some e, d_worker := DWaiting\<rparr>))
       = Returns (0, Some e)
   \<and> fst (DeadlineBufWriter_Close cfg (w\<lparr>d_errors := Some e, d_worker := DWaiting\<rparr>))
       = Returns (Some e)"
proof (intro conjI impI ballI)
  fix ev' :: "'a devent"
  assume "d_worker w = DSending e \<and> d_errors w = Some e0" and "ev' \<in> {DTake, DFlush, DSend, DExit}"
  then show "dstep cfg ev' w = None"
    by (auto simp add: dstep_def)
next
  assume "d_errors w = Some e0 \<and> dstep cfg ev w = Some w' \<and> d_errors w' \<noteq> Some e0"
  then show "is_write ev \<or> ev = DCloseErrors"
    by (cases ev)
       (auto simp add: dstep_def flushLocked_def
             split: if_splits prod.splits option.splits dpc.splits cpc.splits)
next
  assume "d_worker w = DSending e \<and> d_errors w = None \<and> \<not> d_panicked w"
  then show "dstep cfg DSend w = Some (w\<lparr>d_errors := Some e, d_worker := DWaiting\<rparr>)"
    by (simp add: dstep_def)
next
  assume a: "d_worker w = DSending e \<and> d_errors w = Some e0 \<and> \<not> d_panicked w"
  then show "DeadlineBufWriter_Write cfg p w = (Returns (0, Some e0), w\<lparr>d_errors := None\<rparr>)"
    by (simp add: DeadlineBufWriter_Write_def)
  from a show "dstep cfg DSend (snd (DeadlineBufWriter_Write cfg p w))
            = Some (w\<lparr>d_errors := Some e, d_worker := DWaiting\<rparr>)"
    by (simp add: dstep_def DeadlineBufWriter_Write_def)
  from a show "DeadlineBufWriter_Close cfg w = (Returns (Some e0), w\<lparr>d_errors := None\<rparr>)"
    by (simp add: DeadlineBufWriter_Close_def)
  from a show "dstep cfg DSend (snd (DeadlineBufWriter_Close cfg w))
            = Some (w\<lparr>d_errors := Some e, d_worker := DWaiting\<rparr>)"
    by (simp add: dstep_def DeadlineBufWriter_Close_def)
next
  assume "d_worker w = DSending e \<and> d_errors w = Some e0 \<and> \<not> d_panicked w \<and> d_closer w = CIdle"
  then show "dstep cfg DCloseErrors w
          = Some (w\<lparr>d_errors := None,
                    d_returns := d_returns w @ [CloseRet (Returns (Some e0))]\<rparr>)"
    by (simp add: dstep_def)
next
  show "fst (DeadlineBufWriter_Write cfg p (w\<lparr>d_errors := Some e, d_worker := DWaiting\<rparr>))
       = Returns (0, Some e)"
    by (simp add: DeadlineBufWriter_Write_def)
  show "fst (DeadlineBufWriter_Close cfg (w\<lparr>d_errors := Some e, d_worker := DWaiting\<rparr>))
       = Returns (Some e)"
    by (simp add: DeadlineBufWriter_Close_def)
qed

theorem C7_error_send_blocks_witness:
  "dstep takeAndFail_params DSend
         ((NewDeadlineBufWriter 0)\<lparr>d_errors := Some (SinkError ''first''),
                                   d_worker := DSending (SinkError ''later'')\<rparr>) = None
   \<and> dstep takeAndFail_params DTake
         ((NewDeadlineBufWriter 0)\<lparr>d_errors := Some (SinkError ''first''),
                                   d_worker := DSending (SinkError ''later'')\<rparr>) = None
   \<and> dstep takeAndFail_params DFlush
         ((NewDeadlineBufWriter 0)\<lparr>d_errors := Some (SinkError ''first''),
                                   d_worker := DSending (SinkError ''later'')\<rparr>) = None
   \<and> dstep takeAndFail_params DExit
         ((NewDeadlineBufWriter 0)\<lparr>d_errors := Some (SinkError ''first''),
                                   d_worker := DSending (SinkError ''later'')\<rparr>) = None
   \<and> dstep takeAndFail_params DSend
         ((NewDeadlineBufWriter 0)\<lparr>d_worker := DSending (SinkError ''later'')\<rparr>)
       = Some ((NewDeadlineBufWriter 0)\<lparr>d_errors := Some (SinkError ''later'')\<rparr>)
   \<and> DeadlineBufWriter_Write takeAndFail_params [3]
         ((NewDeadlineBufWriter 0)\<lparr>d_errors := Some (SinkError ''first''),
                                   d_worker := DSending (SinkError ''later'')\<rparr>)
       = (Returns (0, Some (SinkError ''first'')),
          (NewDeadlineBufWriter 0)\<lparr>d_worker := DSending (SinkError ''later'')\<rparr>)
   \<and> DeadlineBufWriter_Close takeAndFail_params
         ((NewDeadlineBufWriter 0)\<lparr>d_errors := Some (SinkError ''first''),
                                   d_worker := DSending (SinkError ''later'')\<rparr>)
       = (Returns (Some (SinkError ''first'')),
          (NewDeadlineBufWriter 0)\<lparr>d_worker := DSending (SinkError ''later'')\<rparr>)
   \<and> dstep takeAndFail_params DCloseErrors
         ((NewDeadlineBufWriter 0)\<lparr>d_errors := Some (SinkError ''first''),
                                   d_worker := DSending (SinkError ''later'')\<rparr>)
       = Some ((NewDeadlineBufWriter 0)
                 \<lparr>d_worker := DSending (SinkError ''later''),
                  d_returns := [CloseRet (Returns (Some (SinkError ''first'')))]\<rparr>)
   \<and> fst (DeadlineBufWriter_Close takeAndFail_params
             ((NewDeadlineBufWriter 0)\<lparr>d_errors := Some (SinkError ''later'')\<rparr>))
       = Returns (Some (SinkError ''later''))"
  using C7_error_send_blocks
          [where w = "(NewDeadlineBufWriter 0)\<lparr>d_errors := Some (SinkError ''first''),
                                               d_worker := DSending (SinkError ''later'')\<rparr>"
             and e = "SinkError ''later''" and ?e0.0 = "SinkError ''first''"
             and cfg = takeAndFail_params and p = "[3]" and ev = DCloseErrors
             and w' = "(NewDeadlineBufWriter 0)
                 \<lparr>d_worker := DSending (SinkError ''later''),
                  d_returns := [CloseRet (Returns (Some (SinkError ''first'')))]\<rparr>"]
        C7_error_send_blocks
          [where w = "(NewDeadlineBufWriter 0)\<lparr>d_worker := DSending (SinkError ''later'')\<rparr>"
             and e = "SinkError ''later''" and ?e0.0 = "SinkError ''first''"
             and cfg = takeAndFail_params and p = "[3]" and ev = DCloseErrors
             and w' = "NewDeadlineBufWriter 0"]
  by (simp add: NewDeadlineBufWriter_def)

lemma blocked_state_reached:
  "drun takeAndFail_params [DWrite [1], DTake, DFlush, DWrite [2], DSend, DTake, DFlush]
       (NewDeadlineBufWriter 0)
   = \<lparr>d_buffer = [], d_notify = False, d_notify_closed = False,
      d_errors = Some (SinkError ''first''), d_sink = 2,
      d_worker = DSending (SinkError ''later''), d_closer = CIdle, d_panicked = False,
      d_calls = [[1], [2]],
      d_appended = [1, 2], d_closes = 0,
      d_returns = [WriteRet (Returns (1, None)), WriteRet (Returns (1, None))]\<rparr>"
  by (simp add: dsimps)

text \<open>
  A sink that fails at every call.  The first flush fails; a second write arrives before
  the worker has sent the error; the second flush fails while the first error is still
  in the channel.  The send is then not possible: the worker does not proceed.  After
  two more calls of \<open>Write\<close> both errors have been returned, the second one included.
\<close>

theorem C7_error_send_blocks_counterexample:
  "d_errors (drun takeAndFail_params [DWrite [1], DTake, DFlush, DWrite [2], DSend, DTake, DFlush]
              (NewDeadlineBufWriter 0)) = Some (SinkError ''first'')
   \<and> d_worker (drun takeAndFail_params [DWrite [1], DTake, DFlush, DWrite [2], DSend, DTake, DFlush]
              (NewDeadlineBufWriter 0)) = DSending (SinkError ''later'')
   \<and> dstep takeAndFail_params DSend
        (drun takeAndFail_params [DWrite [1], DTake, DFlush, DWrite [2], DSend, DTake, DFlush]
              (NewDeadlineBufWriter 0)) = None
   \<and> d_returns (drun takeAndFail_params
                   ([DWrite [1], DTake, DFlush, DWrite [2], DSend, DTake, DFlush]
                    @ [DSend, DWrite [3], DSend, DWrite [4]]) (NewDeadlineBufWriter 0))
       = [WriteRet (Returns (1, None)), WriteRet (Returns (1, None)),
          WriteRet (Returns (0, Some (SinkError ''first''))),
          WriteRet (Returns (0, Some (SinkError ''later'')))]"
  unfolding drun_append blocked_state_reached
  by (simp add: dstep_def DeadlineBufWriter_Write_def takeAndFail_params_def)

section \<open>No empty write on the sink\<close>

text \<open>
  A flush on an empty buffer does nothing, and as long as no call of \<open>Close\<close> overlaps
  another action no call of the sink's \<open>Write\<close> has an empty payload, after any such
  schedule on a new instance; in the blocking \<open>Writer\<close>, whose \<open>Close\<close> does not
  flush, after any schedule at all.
\<close>

lemma flush_of_empty_buffer:
  "(d_buffer w = [] \<longrightarrow> flushLocked cfg w = (None, w))
   \<and> (w_buffer v = [] \<longrightarrow> Writer_flush cfg v = v)"
  by (simp add: flushLocked_def Writer_flush_def)

lemma no_empty_write_without_overlap:
  "(\<forall>it\<in>set its. apart it)
     \<longrightarrow> [] \<notin> set (d_calls (drun cfg (concat (map actions its)) (NewDeadlineBufWriter s)))"
  using drun_items[OF New_dinv, of s its cfg]
  by (simp add: dinv_def NewDeadlineBufWriter_def del: drun.simps)

lemma Writer_no_empty_write: "[] \<notin> fst ` set (w_calls (wrun cfg sched (NewWriter s)))"
  using wrun_winv[OF New_winv, of cfg sched s] by (simp add: winv_def)

text \<open>
  Claim C9.  The sink's \<open>Write\<close> is to get no empty byte sequence, since every flush
  tests the buffer first.  \<open>DeadlineBufWriter.Close\<close> calls \<open>flushLocked\<close> without
  \<open>w.mutex\<close>, which \<open>Write\<close> and the worker take.  In this execution, with a sink that
  never fails, a write of one byte wakes the worker; \<open>Close\<close> finds no queued error
  and, in \<open>flushLocked\<close>, a buffer of length 1; the worker then flushes under the
  mutex, sending the byte and truncating the buffer; \<open>Close\<close> goes on to
  \<open>w.writer.Write(w.buffer)\<close>: the sink's second call has the empty payload.
\<close>

theorem C9_empty_write_by_Close:
  "d_closer (drun (test_params None) [DWrite [1], DTake, DCloseErrors, DCloseLen]
               (NewDeadlineBufWriter 0)) = CAtWrite
   \<and> d_buffer (drun (test_params None) [DWrite [1], DTake, DCloseErrors, DCloseLen, DFlush]
                  (NewDeadlineBufWriter 0)) = []
   \<and> d_calls (drun (test_params None)
                 [DWrite [1], DTake, DCloseErrors, DCloseLen, DFlush, DCloseWrite]
                 (NewDeadlineBufWriter 0)) = [[1], []]"
  by (simp add: dsimps)

end
